theory Spec2Isabelle
  imports Complex_Main "HOL-Library.Sublist"
begin

section \<open>Tool results\<close>

text \<open>
  Both tool handlers of \<^verbatim>\<open>src/index.js\<close> return an object literal
  \<^verbatim>\<open>{ content: [{ type: "text", text: ... }] }\<close>. A JavaScript string is a sequence of
  code units; a \<^typ>\<open>char\<close> stands for one code unit.
\<close>

record content_block =
  "type" :: string
  "text" :: string

record call_result =
  content :: "content_block list"

text \<open>The literal \<^verbatim>\<open>{ content: [{ type: "text", text: t }] }\<close>.\<close>

definition text_result :: "string \<Rightarrow> call_result" where
  "text_result t = \<lparr>content = [\<lparr>type = ''text'', text = t\<rparr>]\<rparr>"

section \<open>POSIX \<^verbatim>\<open>path.resolve\<close>\<close>

text \<open>
  \<^verbatim>\<open>path.resolve\<close> is Node's built-in (POSIX flavour). It walks its arguments from the
  right, skipping empty ones and prepending each one followed by a slash, until it has
  prepended an absolute one; the working directory is consulted when no argument is absolute.
  The collected string is normalised segment by segment: empty segments and \<^verbatim>\<open>.\<close> are
  dropped, \<^verbatim>\<open>..\<close> removes the segment before it (at the root it is dropped). Symbolic links
  are not looked at: the function never touches the disk.
\<close>

fun split_sep :: "string \<Rightarrow> string list" where
  "split_sep [] = [[]]"
| "split_sep (c # cs) =
     (if c = CHR ''/'' then [] # split_sep cs
      else (case split_sep cs of
              [] \<Rightarrow> [[c]]
            | s # ss \<Rightarrow> (c # s) # ss))"

fun join_sep :: "string list \<Rightarrow> string" where
  "join_sep [] = []"
| "join_sep [s] = s"
| "join_sep (s # t # ss) = s @ ''/'' @ join_sep (t # ss)"

fun normalize_segments :: "bool \<Rightarrow> string list \<Rightarrow> string list \<Rightarrow> string list" where
  "normalize_segments allowAboveRoot res [] = res"
| "normalize_segments allowAboveRoot res (seg # segs) =
     (if seg = [] \<or> seg = ''.'' then normalize_segments allowAboveRoot res segs
      else if seg = ''..'' then
        (if res \<noteq> [] \<and> last res \<noteq> ''..''
         then normalize_segments allowAboveRoot (butlast res) segs
         else if allowAboveRoot
         then normalize_segments allowAboveRoot (res @ [''..'']) segs
         else normalize_segments allowAboveRoot res segs)
      else normalize_segments allowAboveRoot (res @ [seg]) segs)"

definition normalizeString :: "string \<Rightarrow> bool \<Rightarrow> string" where
  "normalizeString p allowAboveRoot =
     join_sep (normalize_segments allowAboveRoot [] (split_sep p))"

text \<open>
  The loop of \<^verbatim>\<open>path.resolve\<close>, on the arguments from the last to the first and then the
  working directory: the result is the collected path and whether it is absolute.
\<close>

fun resolve_args :: "string list \<Rightarrow> string \<Rightarrow> string \<times> bool" where
  "resolve_args [] resolvedPath = (resolvedPath, False)"
| "resolve_args (p # ps) resolvedPath =
     (if p = [] then resolve_args ps resolvedPath
      else if hd p = CHR ''/'' then (p @ ''/'' @ resolvedPath, True)
      else resolve_args ps (p @ ''/'' @ resolvedPath))"

definition path_resolve :: "string \<Rightarrow> string list \<Rightarrow> string" where
  "path_resolve cwd args =
     (case resolve_args (rev args @ [cwd]) [] of
        (resolvedPath, resolvedAbsolute) \<Rightarrow>
          (let n = normalizeString resolvedPath (\<not> resolvedAbsolute)
           in if resolvedAbsolute then ''/'' @ n
              else if n \<noteq> [] then n else ''.''))"

section \<open>The \<^verbatim>\<open>read_file\<close> tool\<close>

text \<open>
  The file system is what \<^verbatim>\<open>fs.readFile(filepath, "utf-8")\<close> answers for a path: the
  decoded contents, or a rejection. The handler's \<^verbatim>\<open>catch\<close> has no binding, so every
  rejection takes the same branch.
\<close>

datatype fs_error = ENOENT | EACCES | EISDIR | EOTHER string

type_synonym filesystem = "string \<Rightarrow> fs_error + string"

text \<open>The disk accesses a call makes, in order.\<close>

datatype fs_op = ReadFile string

text \<open>
  The handler of \<^verbatim>\<open>read_file\<close> (lines 91 to 114). \<open>FILES_DIR\<close> is the constant of line 16,
  computed once from the module's location; \<open>cwd\<close> is the working directory that
  \<^verbatim>\<open>path.resolve\<close> falls back to. The result is paired with the disk accesses made.
\<close>

definition read_file :: "filesystem \<Rightarrow> string \<Rightarrow> string \<Rightarrow> string \<Rightarrow> call_result \<times> fs_op list" where
  "read_file fs cwd FILES_DIR filename =
     (let filepath = path_resolve cwd [FILES_DIR, filename]
      in if \<not> prefix FILES_DIR filepath
         then (text_result ''Access denied: path is outside the files directory.'', [])
         else (case fs filepath of
                 Inr contents \<Rightarrow> (text_result contents, [ReadFile filepath])
               | Inl e \<Rightarrow>
                   (text_result (''File not found: \"'' @ filename @
                        ''\" does not exist in the files/ directory''),
                    [ReadFile filepath])))"

text \<open>
  The containment the specification asks of the path guard, in its words: the resolved path
  equals the sandbox root exactly, or starts with the root followed immediately by the path
  separator. It is compared below with the test the handler makes.
\<close>

definition spec_inside_sandbox :: "string \<Rightarrow> string \<Rightarrow> bool" where
  "spec_inside_sandbox sandboxRoot p = (p = sandboxRoot \<or> prefix (sandboxRoot @ ''/'') p)"

text \<open>A small disk for the concrete runs: one file in the sandbox, two outside of it.\<close>

definition sample_disk :: filesystem where
  "sample_disk p =
     (if p = ''/app/files/hello.txt'' then Inr ''hi''
      else if p = ''/app/files-secret/x'' then Inr ''secret''
      else if p = ''/app/outside.txt'' then Inr ''outside''
      else if p = ''/app/files'' then Inl EISDIR
      else Inl ENOENT)"

subsection \<open>Reading a file as UTF-8\<close>

text \<open>
  The disk itself holds bytes, or rejects the read. \<^verbatim>\<open>fs.readFile(filepath, "utf-8")\<close> rejects
  when the read rejects; otherwise it decodes the bytes as UTF-8, and decoding never rejects:
  each malformed sequence becomes U+FFFD (the decoder of the Encoding Standard, with code
  points beyond U+FFFF as surrogate pairs).
\<close>

type_synonym raw_disk = "string \<Rightarrow> fs_error + nat list"

fun utf8_step :: "nat \<Rightarrow> nat \<Rightarrow> nat \<Rightarrow> nat \<Rightarrow> nat list \<Rightarrow> nat list" where
  "utf8_step cp needed lower upper [] = (if needed \<noteq> 0 then [0xFFFD] else [])"
| "utf8_step cp needed lower upper (b # bs) =
     (if needed = 0 then
        (if b \<le> 0x7F then b # utf8_step 0 0 0x80 0xBF bs
         else if 0xC2 \<le> b \<and> b \<le> 0xDF then utf8_step (b mod 32) 1 0x80 0xBF bs
         else if 0xE0 \<le> b \<and> b \<le> 0xEF
         then utf8_step (b mod 16) 2 (if b = 0xE0 then 0xA0 else 0x80)
                (if b = 0xED then 0x9F else 0xBF) bs
         else if 0xF0 \<le> b \<and> b \<le> 0xF4
         then utf8_step (b mod 8) 3 (if b = 0xF0 then 0x90 else 0x80)
                (if b = 0xF4 then 0x8F else 0xBF) bs
         else 0xFFFD # utf8_step 0 0 0x80 0xBF bs)
      else if b < lower \<or> upper < b then 0xFFFD # utf8_step 0 0 0x80 0xBF (b # bs)
      else if needed = 1 then (cp * 64 + b mod 64) # utf8_step 0 0 0x80 0xBF bs
      else utf8_step (cp * 64 + b mod 64) (needed - 1) 0x80 0xBF bs)"

definition utf8_decode :: "nat list \<Rightarrow> nat list" where
  "utf8_decode bytes = utf8_step 0 0 0x80 0xBF bytes"

definition utf16_units :: "nat \<Rightarrow> nat list" where
  "utf16_units cp =
     (if cp < 0x10000 then [cp]
      else [0xD800 + (cp - 0x10000) div 0x400, 0xDC00 + (cp - 0x10000) mod 0x400])"

text \<open>
  A \<^typ>\<open>char\<close> stands for a code unit: of a code unit that a \<^typ>\<open>char\<close> cannot hold the text
  keeps what \<^const>\<open>char_of\<close> gives, so two texts that differ here differ in the program.
\<close>

definition text_of_units :: "nat list \<Rightarrow> string" where
  "text_of_units us = map char_of us"

definition readFile_utf8 :: "raw_disk \<Rightarrow> filesystem" where
  "readFile_utf8 disk p =
     (case disk p of
        Inl e \<Rightarrow> Inl e
      | Inr bytes \<Rightarrow> Inr (text_of_units (concat (map utf16_units (utf8_decode bytes)))))"

text \<open>A disk with one file of valid UTF-8 and one file of bytes that are not UTF-8.\<close>

definition sample_raw_disk :: raw_disk where
  "sample_raw_disk p =
     (if p = ''/app/files/hello.txt'' then Inr [0x68, 0x69]
      else if p = ''/app/files/bad.bin'' then Inr [0xFF, 0xFE, 0x41]
      else Inl ENOENT)"

section \<open>JavaScript values\<close>

text \<open>
  A Number is an IEEE 754 double: a finite value (kept as the rational it denotes), an
  infinity or NaN. The sign of zero is not kept: nothing the handler computes depends on it
  (\<^verbatim>\<open>toFixed\<close> prints both zeros alike, both are falsy, and no division has a zero divisor).
\<close>

datatype jsnum = Fin rat | PosInf | NegInf | NaN

text \<open>
  What \<^verbatim>\<open>response.json()\<close> can give, and \<^verbatim>\<open>undefined\<close> for a property that is absent.
  An object is the list of its own properties; the first binding of a name is its value.
\<close>

datatype jsval =
    JUndefined
  | JNull
  | JBool bool
  | JNum jsnum
  | JStr string
  | JArr "jsval list"
  | JObj "(string \<times> jsval) list"

datatype js_error = TypeError | SyntaxError

text \<open>An expression that throws ends the evaluation: the rest is not run.\<close>

definition bind_err :: "'e + 'a \<Rightarrow> ('a \<Rightarrow> 'e + 'b) \<Rightarrow> 'e + 'b" where
  "bind_err m f = (case m of Inl e \<Rightarrow> Inl e | Inr x \<Rightarrow> f x)"

text \<open>
  Two conversions of the language are taken as they come from the host: the shortest decimal
  form of a Number (ECMA-262 leaves the choice of digits open; it is used here only for
  values that are not integers below \<open>2^53\<close>), and the reading of a string as a Number.
\<close>

record host =
  NumberToString :: "rat \<Rightarrow> string"
  StringToNumber :: "string \<Rightarrow> jsnum"

subsection \<open>Rounding to a double\<close>

fun bitlen :: "nat \<Rightarrow> nat" where
  "bitlen n = (if n = 0 then 0 else Suc (bitlen (n div 2)))"

declare bitlen.simps [simp del]

definition pow2 :: "int \<Rightarrow> rat" where
  "pow2 e = (if 0 \<le> e then 2 ^ nat e else 1 / 2 ^ nat (- e))"

text \<open>The binary exponent of a positive rational: \<open>pow2 (ilog2 a) \<le> a < pow2 (ilog2 a + 1)\<close>.\<close>

definition ilog2 :: "rat \<Rightarrow> int" where
  "ilog2 a =
     (case quotient_of a of
        (p, q) \<Rightarrow>
          (let k = int (bitlen (nat p)) - int (bitlen (nat q))
           in if pow2 k \<le> a then k else k - 1))"

definition round_half_even :: "rat \<Rightarrow> int" where
  "round_half_even x =
     (let f = \<lfloor>x\<rfloor>; d = x - of_int f
      in if d < 1 / 2 then f
         else if 1 / 2 < d then f + 1
         else if even f then f else f + 1)"

text \<open>
  Round to nearest, ties to even, with 53 bits of precision, exponents from \<open>-1022\<close>
  (below it the spacing stays that of the subnormal numbers) and overflow to an infinity.
\<close>

definition fl :: "rat \<Rightarrow> jsnum" where
  "fl q =
     (if q = 0 then Fin 0
      else (let a = \<bar>q\<bar>;
                e = max (ilog2 a) (- 1022);
                ulp = pow2 (e - 52);
                r = of_int (round_half_even (a / ulp)) * ulp
            in if pow2 1024 \<le> r then (if 0 < q then PosInf else NegInf)
               else Fin (if 0 < q then r else - r)))"

text \<open>
  The arithmetic of the handler has a Number on the left and a finite, positive constant on
  the right: \<^verbatim>\<open>x - 32\<close>, \<^verbatim>\<open>x * 5\<close>, \<^verbatim>\<open>x / 9\<close>, \<^verbatim>\<open>x / 1000\<close>.
\<close>

definition num_sub :: "jsnum \<Rightarrow> rat \<Rightarrow> jsnum" where
  "num_sub x c = (case x of Fin q \<Rightarrow> fl (q - c) | _ \<Rightarrow> x)"

definition num_mul :: "jsnum \<Rightarrow> rat \<Rightarrow> jsnum" where
  "num_mul x c = (case x of Fin q \<Rightarrow> fl (q * c) | _ \<Rightarrow> x)"

definition num_div :: "jsnum \<Rightarrow> rat \<Rightarrow> jsnum" where
  "num_div x c = (case x of Fin q \<Rightarrow> fl (q / c) | _ \<Rightarrow> x)"

subsection \<open>Numbers as text\<close>

fun dec :: "nat \<Rightarrow> string" where
  "dec n =
     (if n < 10 then [''0123456789'' ! n]
      else dec (n div 10) @ [''0123456789'' ! (n mod 10)])"

declare dec.simps [simp del]

definition Number_toString :: "host \<Rightarrow> jsnum \<Rightarrow> string" where
  "Number_toString h x =
     (case x of
        NaN \<Rightarrow> ''NaN''
      | PosInf \<Rightarrow> ''Infinity''
      | NegInf \<Rightarrow> ''-Infinity''
      | Fin q \<Rightarrow>
          (if q = 0 then ''0''
           else (if q < 0 then ''-'' else []) @
                (let a = \<bar>q\<bar>
                 in if of_int \<lfloor>a\<rfloor> = a \<and> a < 2 ^ 53 then dec (nat \<lfloor>a\<rfloor>)
                    else NumberToString h a)))"

text \<open>
  \<^verbatim>\<open>x.toFixed(1)\<close>: below \<open>10^21\<close> the integer \<open>n\<close> with \<open>n / 10\<close> nearest to the value
  (the larger one of two), printed with one digit after the point.
\<close>

definition toFixed1 :: "host \<Rightarrow> jsnum \<Rightarrow> string" where
  "toFixed1 h x =
     (case x of
        NaN \<Rightarrow> ''NaN''
      | PosInf \<Rightarrow> ''Infinity''
      | NegInf \<Rightarrow> ''-Infinity''
      | Fin q \<Rightarrow>
          (let s = (if q < 0 then ''-'' else []); a = \<bar>q\<bar>
           in if 10 ^ 21 \<le> a then s @ Number_toString h (Fin a)
              else (let n = nat \<lfloor>a * 10 + 1 / 2\<rfloor>
                    in s @ dec (n div 10) @ ''.'' @ dec (n mod 10))))"

subsection \<open>Conversions and property access\<close>

fun truthy :: "jsval \<Rightarrow> bool" where
  "truthy JUndefined = False"
| "truthy JNull = False"
| "truthy (JBool b) = b"
| "truthy (JNum (Fin q)) = (q \<noteq> 0)"
| "truthy (JNum NaN) = False"
| "truthy (JNum PosInf) = True"
| "truthy (JNum NegInf) = True"
| "truthy (JStr s) = (s \<noteq> [])"
| "truthy (JArr xs) = True"
| "truthy (JObj kvs) = True"

text \<open>
  The string a template literal puts in for a value. An array is its elements joined by
  commas (nothing for \<^verbatim>\<open>null\<close>); a parsed object is \<^verbatim>\<open>[object Object]\<close>, unless it has a
  property \<^verbatim>\<open>toString\<close> of its own, which is not a function: then the conversion throws.
\<close>

fun to_string :: "host \<Rightarrow> jsval \<Rightarrow> js_error + string"
  and join_elems :: "host \<Rightarrow> jsval list \<Rightarrow> js_error + string" where
  "to_string h JUndefined = Inr ''undefined''"
| "to_string h JNull = Inr ''null''"
| "to_string h (JBool b) = Inr (if b then ''true'' else ''false'')"
| "to_string h (JNum x) = Inr (Number_toString h x)"
| "to_string h (JStr s) = Inr s"
| "to_string h (JArr xs) = join_elems h xs"
| "to_string h (JObj kvs) =
     (if map_of kvs ''toString'' \<noteq> None then Inl TypeError else Inr ''[object Object]'')"
| "join_elems h [] = Inr []"
| "join_elems h (x # xs) =
     (case (if x = JUndefined \<or> x = JNull then Inr [] else to_string h x) of
        Inl e \<Rightarrow> Inl e
      | Inr s \<Rightarrow>
          (if xs = [] then Inr s
           else (case join_elems h xs of
                   Inl e \<Rightarrow> Inl e
                 | Inr r \<Rightarrow> Inr (s @ '','' @ r))))"

text \<open>The Number a value stands for on the left of \<^verbatim>\<open>-\<close> and \<^verbatim>\<open>/\<close>.\<close>

fun to_number :: "host \<Rightarrow> jsval \<Rightarrow> js_error + jsnum" where
  "to_number h JUndefined = Inr NaN"
| "to_number h JNull = Inr (Fin 0)"
| "to_number h (JBool b) = Inr (Fin (if b then 1 else 0))"
| "to_number h (JNum x) = Inr x"
| "to_number h (JStr s) = Inr (StringToNumber h s)"
| "to_number h (JArr xs) = bind_err (join_elems h xs) (\<lambda>s. Inr (StringToNumber h s))"
| "to_number h (JObj kvs) =
     (if map_of kvs ''toString'' \<noteq> None then Inl TypeError else Inr NaN)"

text \<open>
  Reading a named property: of \<^verbatim>\<open>undefined\<close> and \<^verbatim>\<open>null\<close> it throws a TypeError. The names
  the handler reads are defined on no built-in prototype, so a value that is not an object
  with that property gives \<^verbatim>\<open>undefined\<close>.
\<close>

fun get_prop :: "jsval \<Rightarrow> string \<Rightarrow> js_error + jsval" where
  "get_prop JUndefined k = Inl TypeError"
| "get_prop JNull k = Inl TypeError"
| "get_prop (JObj kvs) k = Inr (case map_of kvs k of None \<Rightarrow> JUndefined | Some v \<Rightarrow> v)"
| "get_prop v k = Inr JUndefined"

fun get_index :: "jsval \<Rightarrow> nat \<Rightarrow> js_error + jsval" where
  "get_index JUndefined i = Inl TypeError"
| "get_index JNull i = Inl TypeError"
| "get_index (JObj kvs) i = Inr (case map_of kvs (dec i) of None \<Rightarrow> JUndefined | Some v \<Rightarrow> v)"
| "get_index (JArr xs) i = Inr (if i < length xs then xs ! i else JUndefined)"
| "get_index (JStr s) i = Inr (if i < length s then JStr [s ! i] else JUndefined)"
| "get_index v i = Inr JUndefined"

text \<open>\<^verbatim>\<open>v.toFixed(1)\<close>: only a Number has the method.\<close>

fun call_toFixed :: "host \<Rightarrow> jsval \<Rightarrow> js_error + string" where
  "call_toFixed h (JNum x) = Inr (toFixed1 h x)"
| "call_toFixed h v = Inl TypeError"

subsection \<open>\<^verbatim>\<open>encodeURIComponent\<close>\<close>

definition unreserved :: "char \<Rightarrow> bool" where
  "unreserved c =
     (c \<in> set (''ABCDEFGHIJKLMNOPQRSTUVWXYZabcdefghijklmnopqrstuvwxyz0123456789-_.!~*()''
               @ [CHR 0x27]))"

definition percent :: "nat \<Rightarrow> string" where
  "percent b = [CHR ''%'', ''0123456789ABCDEF'' ! (b div 16), ''0123456789ABCDEF'' ! (b mod 16)]"

definition utf8 :: "char \<Rightarrow> nat list" where
  "utf8 c = (let n = of_char c in if n < 128 then [n] else [192 + n div 64, 128 + n mod 64])"

fun encodeURIComponent :: "string \<Rightarrow> string" where
  "encodeURIComponent [] = []"
| "encodeURIComponent (c # cs) =
     (if unreserved c then [c] else concat (map percent (utf8 c))) @ encodeURIComponent cs"

section \<open>The \<^verbatim>\<open>get_weather\<close> tool\<close>

definition WEATHER_API_KEY :: string where
  "WEATHER_API_KEY = ''9e16d62c8463bb8555971f49447c76e1''"

text \<open>
  What the handler reads of the object \<^verbatim>\<open>fetch\<close> resolves to: \<^verbatim>\<open>ok\<close>, \<^verbatim>\<open>status\<close>, and the
  outcome of \<^verbatim>\<open>response.json()\<close>. The network is what \<^verbatim>\<open>fetch\<close> answers for a URL.
\<close>

record response =
  ok :: bool
  status :: nat
  json :: "js_error + jsval"

type_synonym network = "string \<Rightarrow> js_error + response"

datatype net_op = Fetch string | ReadJson

definition weather_url :: "string \<Rightarrow> string" where
  "weather_url location =
     ''https://api.openweathermap.org/data/2.5/weather?q='' @ encodeURIComponent location @
     ''&appid='' @ WEATHER_API_KEY @ ''&units=imperial''"

text \<open>The constants of lines 54 to 62.\<close>

record weather_fields =
  city :: jsval
  country :: jsval
  description :: jsval
  tempF :: string
  tempC :: string
  feelsLikeF :: string
  humidity :: jsval
  windMph :: string
  visibility :: string

definition extract_fields :: "host \<Rightarrow> jsval \<Rightarrow> js_error + weather_fields" where
  "extract_fields h data =
     bind_err (get_prop data ''name'') (\<lambda>city.
     bind_err (bind_err (get_prop data ''sys'') (\<lambda>sys. get_prop sys ''country'')) (\<lambda>country.
     bind_err (bind_err (bind_err (get_prop data ''weather'') (\<lambda>w. get_index w 0))
                 (\<lambda>w0. get_prop w0 ''description'')) (\<lambda>description.
     bind_err (bind_err (bind_err (get_prop data ''main'') (\<lambda>m. get_prop m ''temp''))
                 (call_toFixed h)) (\<lambda>tempF.
     bind_err (bind_err (bind_err (get_prop data ''main'') (\<lambda>m. get_prop m ''temp''))
                 (to_number h)) (\<lambda>t.
     bind_err (bind_err (bind_err (get_prop data ''main'') (\<lambda>m. get_prop m ''feels_like''))
                 (call_toFixed h)) (\<lambda>feelsLikeF.
     bind_err (bind_err (get_prop data ''main'') (\<lambda>m. get_prop m ''humidity'')) (\<lambda>humidity.
     bind_err (bind_err (bind_err (get_prop data ''wind'') (\<lambda>w. get_prop w ''speed''))
                 (call_toFixed h)) (\<lambda>windMph.
     bind_err (bind_err (get_prop data ''visibility'') (\<lambda>v.
                 if truthy v
                 then bind_err (to_number h v) (\<lambda>x. Inr (toFixed1 h (num_div x 1000)))
                 else Inr ''N/A'')) (\<lambda>visibility.
     Inr \<lparr>city = city, country = country, description = description, tempF = tempF,
          tempC = toFixed1 h (num_div (num_mul (num_sub t 32) 5) 9),
          feelsLikeF = feelsLikeF, humidity = humidity, windMph = windMph,
          visibility = visibility\<rparr>)))))))))"

text \<open>The six lines of the summary, with the strings put in for the nine constants.\<close>

definition summary_lines ::
  "string \<Rightarrow> string \<Rightarrow> string \<Rightarrow> string \<Rightarrow> string \<Rightarrow> string \<Rightarrow> string \<Rightarrow> string \<Rightarrow> string
     \<Rightarrow> string list" where
  "summary_lines c co d tc tf fe hu wi vi =
     [''Weather for '' @ c @ '', '' @ co,
      ''Condition:   '' @ d,
      ''Temperature: '' @ tc @ [CHR 0xB0] @ ''C / '' @ tf @ [CHR 0xB0] @ ''F (feels like '' @
        fe @ [CHR 0xB0] @ ''F)'',
      ''Humidity:    '' @ hu @ ''%'',
      ''Wind:        '' @ wi @ '' mph'',
      ''Visibility:  '' @ vi @ '' km'']"

fun join_lines :: "string list \<Rightarrow> string" where
  "join_lines [] = []"
| "join_lines [s] = s"
| "join_lines (s # t # ss) = s @ [CHR 0x0A] @ join_lines (t # ss)"

definition summary :: "host \<Rightarrow> weather_fields \<Rightarrow> js_error + string" where
  "summary h f =
     bind_err (to_string h (city f)) (\<lambda>c.
     bind_err (to_string h (country f)) (\<lambda>co.
     bind_err (to_string h (description f)) (\<lambda>d.
     bind_err (to_string h (humidity f)) (\<lambda>hu.
     Inr (join_lines
            (summary_lines c co d (tempC f) (tempF f) (feelsLikeF f) hu (windMph f)
               (visibility f)))))))"

text \<open>
  The handler of \<^verbatim>\<open>get_weather\<close> (lines 38 to 76). \<^verbatim>\<open>Inl\<close> is an exception that leaves the
  handler; the result is paired with the network operations made.
\<close>

definition get_weather :: "host \<Rightarrow> network \<Rightarrow> string \<Rightarrow> (js_error + call_result) \<times> net_op list" where
  "get_weather h fetch location =
     (let url = weather_url location
      in case fetch url of
           Inl e \<Rightarrow> (Inl e, [Fetch url])
         | Inr response \<Rightarrow>
             if \<not> ok response
             then (Inr (text_result (''Failed to fetch weather for \"'' @ location @
                                     ''\": HTTP '' @ dec (status response))),
                   [Fetch url])
             else (case json response of
                     Inl e \<Rightarrow> (Inl e, [Fetch url, ReadJson])
                   | Inr data \<Rightarrow>
                       (bind_err (bind_err (extract_fields h data) (summary h))
                          (\<lambda>s. Inr (text_result s)),
                        [Fetch url, ReadJson])))"

text \<open>
  Everything the handler copies from its inputs into a result: the caller's location on the
  failure path, and on the success path the nine strings put into the summary.
\<close>

definition rendered :: "host \<Rightarrow> jsval \<Rightarrow> string" where
  "rendered h v = (case to_string h v of Inl e \<Rightarrow> [] | Inr s \<Rightarrow> s)"

definition interpolated :: "host \<Rightarrow> string \<Rightarrow> response \<Rightarrow> string list" where
  "interpolated h location response =
     (if \<not> ok response then [location]
      else (case json response of
              Inl e \<Rightarrow> []
            | Inr data \<Rightarrow>
                (case extract_fields h data of
                   Inl e \<Rightarrow> []
                 | Inr f \<Rightarrow>
                     [rendered h (city f), rendered h (country f), rendered h (description f),
                      tempC f, tempF f, feelsLikeF f, rendered h (humidity f), windMph f,
                      visibility f])))"

text \<open>
  Bodies for the concrete runs, in the shape the provider documents: all the fields the
  handler reads but \<^verbatim>\<open>visibility\<close>, with the given name and more properties after them.
\<close>

definition weather_body :: "jsval \<Rightarrow> (string \<times> jsval) list \<Rightarrow> jsval" where
  "weather_body name extra =
     JObj ([(''name'', name),
            (''sys'', JObj [(''country'', JStr ''US'')]),
            (''weather'', JArr [JObj [(''description'', JStr ''clear sky'')]]),
            (''main'', JObj [(''temp'', JNum (Fin 68)), (''feels_like'', JNum (Fin 68)),
                             (''humidity'', JNum (Fin 50))]),
            (''wind'', JObj [(''speed'', JNum (Fin 5))])] @ extra)"

text \<open>A network that answers every request alike.\<close>

definition answer :: "bool \<Rightarrow> nat \<Rightarrow> js_error + jsval \<Rightarrow> network" where
  "answer k s b = (\<lambda>url. Inr \<lparr>ok = k, status = s, json = b\<rparr>)"

section \<open>Properties of \<^verbatim>\<open>read_file\<close>\<close>

text \<open>With an absolute root the working directory is never consulted.\<close>

lemma path_resolve_absolute_root:
  assumes "FILES_DIR \<noteq> []" and "hd FILES_DIR = CHR ''/''"
  shows "path_resolve cwd [FILES_DIR, filename] = path_resolve cwd' [FILES_DIR, filename]"
  using assms by (simp add: path_resolve_def)

lemma inside_imp_prefix:
  "spec_inside_sandbox r p \<Longrightarrow> prefix r p"
  by (auto simp: spec_inside_sandbox_def prefix_def)

text \<open>The handler reads the disk exactly when the resolved path starts with the root.\<close>

lemma read_file_ops:
  "snd (read_file fs cwd FILES_DIR filename) =
     (if prefix FILES_DIR (path_resolve cwd [FILES_DIR, filename])
      then [ReadFile (path_resolve cwd [FILES_DIR, filename])] else [])"
  by (cases "fs (path_resolve cwd [FILES_DIR, filename])") (simp_all add: read_file_def Let_def)

text \<open>
  Claim C1 says that every name resolving outside the sandbox is denied, a sibling directory
  whose name only shares the root as a string prefix included. The handler tests
  \<^verbatim>\<open>filepath.startsWith(FILES_DIR)\<close> with no separator after the root: with the root
  \<^verbatim>\<open>/app/files\<close>, the name \<^verbatim>\<open>../files-secret/x\<close> resolves to \<^verbatim>\<open>/app/files-secret/x\<close>,
  which is not inside the sandbox, and the handler reads that file and returns its contents.
\<close>

theorem read_file_sibling_prefix_is_read:
  "read_file sample_disk ''/'' ''/app/files'' ''../files-secret/x'' =
     (text_result ''secret'', [ReadFile ''/app/files-secret/x''])
   \<and> \<not> spec_inside_sandbox ''/app/files'' (path_resolve ''/'' [''/app/files'', ''../files-secret/x''])"
  by code_simp

text \<open>Decoding never rejects: the read as UTF-8 rejects exactly when the disk does.\<close>

lemma readFile_utf8_rejects:
  "readFile_utf8 disk p = Inl e \<longleftrightarrow> disk p = Inl e"
  by (cases "disk p") (simp_all add: readFile_utf8_def)

text \<open>
  Claim C5 says that any failure of the read, a decode error included, gives the one
  collapsed message. A file whose bytes are not UTF-8 is no failure of
  \<^verbatim>\<open>fs.readFile(filepath, "utf-8")\<close>: with the bytes \<^verbatim>\<open>FF FE 41\<close> in \<^verbatim>\<open>files/bad.bin\<close> the read
  resolves with the code units U+FFFD, U+FFFD, \<^verbatim>\<open>A\<close>, and line 105 returns them as the text of
  the result, not the message.
\<close>

theorem read_file_invalid_utf8_is_success:
  "utf8_decode [0xFF, 0xFE, 0x41] = [0xFFFD, 0xFFFD, 0x41]
   \<and> prefix ''/app/files'' (path_resolve ''/'' [''/app/files'', ''bad.bin''])
   \<and> read_file (readFile_utf8 sample_raw_disk) ''/'' ''/app/files'' ''bad.bin'' =
       (text_result (text_of_units [0xFFFD, 0xFFFD, 0x41]), [ReadFile ''/app/files/bad.bin''])
   \<and> text_result (text_of_units [0xFFFD, 0xFFFD, 0x41]) \<noteq>
       text_result ''File not found: \"bad.bin\" does not exist in the files/ directory''"
proof (intro conjI)
  show d: "utf8_decode [0xFF, 0xFE, 0x41] = [0xFFFD, 0xFFFD, 0x41]"
    by (simp add: utf8_decode_def)
  have p: "path_resolve ''/'' [''/app/files'', ''bad.bin''] = ''/app/files/bad.bin''"
    by code_simp
  show "prefix ''/app/files'' (path_resolve ''/'' [''/app/files'', ''bad.bin''])"
    unfolding p by simp
  have r: "readFile_utf8 sample_raw_disk ''/app/files/bad.bin'' =
             Inr (text_of_units [0xFFFD, 0xFFFD, 0x41])"
    by (simp add: readFile_utf8_def sample_raw_disk_def d utf16_units_def)
  show "read_file (readFile_utf8 sample_raw_disk) ''/'' ''/app/files'' ''bad.bin'' =
       (text_result (text_of_units [0xFFFD, 0xFFFD, 0x41]), [ReadFile ''/app/files/bad.bin''])"
    by (simp add: read_file_def p r)
  show "text_result (text_of_units [0xFFFD, 0xFFFD, 0x41]) \<noteq>
       text_result ''File not found: \"bad.bin\" does not exist in the files/ directory''"
  proof
    assume "text_result (text_of_units [0xFFFD, 0xFFFD, 0x41]) =
       text_result ''File not found: \"bad.bin\" does not exist in the files/ directory''"
    then have "text_of_units [0xFFFD, 0xFFFD, 0x41] =
       ''File not found: \"bad.bin\" does not exist in the files/ directory''"
      by (simp add: text_result_def)
    then have "length (text_of_units [0xFFFD, 0xFFFD, 0x41]) =
       length ''File not found: \"bad.bin\" does not exist in the files/ directory''"
      by (rule arg_cong)
    then show False
      by (simp add: text_of_units_def)
  qed
qed

text \<open>
  Claim C5, amended: when the name passes the path guard and the read rejects (not found,
  permission denied, is a directory, or any other rejection), the result is the one message
  \<^verbatim>\<open>File not found: "<filename>" does not exist in the files/ directory\<close> with the caller's
  filename; the kind of rejection is not in the result, and the handler returns.
\<close>

theorem read_file_failure_collapsed:
  assumes "prefix FILES_DIR (path_resolve cwd [FILES_DIR, filename])"
    and "fs (path_resolve cwd [FILES_DIR, filename]) = Inl e"
  shows "fst (read_file fs cwd FILES_DIR filename) =
           text_result (''File not found: \"'' @ filename @
                        ''\" does not exist in the files/ directory'')"
  using assms by (simp add: read_file_def)

theorem read_file_failure_collapsed_witness:
  "prefix ''/app/files'' (path_resolve ''/'' [''/app/files'', ''missing.txt''])
   \<and> sample_disk (path_resolve ''/'' [''/app/files'', ''missing.txt'']) = Inl ENOENT
   \<and> prefix ''/app/files'' (path_resolve ''/'' [''/app/files'', ''''])
   \<and> sample_disk (path_resolve ''/'' [''/app/files'', '''']) = Inl EISDIR
   \<and> fst (read_file sample_disk ''/'' ''/app/files'' ''missing.txt'') =
       text_result ''File not found: \"missing.txt\" does not exist in the files/ directory''
   \<and> fst (read_file sample_disk ''/'' ''/app/files'' '''') =
       text_result ''File not found: \"\" does not exist in the files/ directory''"
proof -
  have p1: "prefix ''/app/files'' (path_resolve ''/'' [''/app/files'', ''missing.txt''])"
    by code_simp
  have e1: "sample_disk (path_resolve ''/'' [''/app/files'', ''missing.txt'']) = Inl ENOENT"
    by code_simp
  have p2: "prefix ''/app/files'' (path_resolve ''/'' [''/app/files'', ''''])"
    by code_simp
  have e2: "sample_disk (path_resolve ''/'' [''/app/files'', '''']) = Inl EISDIR"
    by code_simp
  show ?thesis
    using p1 e1 p2 e2 read_file_failure_collapsed [where fs = sample_disk, OF p1 e1]
      read_file_failure_collapsed [where fs = sample_disk, OF p2 e2]
    by simp
qed

text \<open>
  Claim C6: when the path guard denies the name, the handler returns the denial at once and
  the call makes no disk access at all; the check needs only the root and the name.
\<close>

theorem read_file_denied_no_disk_access:
  assumes "\<not> prefix FILES_DIR (path_resolve cwd [FILES_DIR, filename])"
  shows "read_file fs cwd FILES_DIR filename =
           (text_result ''Access denied: path is outside the files directory.'', [])"
  using assms by (simp add: read_file_def)

theorem read_file_denied_no_disk_access_witness:
  "\<not> prefix ''/app/files'' (path_resolve ''/'' [''/app/files'', ''../outside.txt''])
   \<and> sample_disk (path_resolve ''/'' [''/app/files'', ''../outside.txt'']) = Inr ''outside''
   \<and> read_file sample_disk ''/'' ''/app/files'' ''../outside.txt'' =
       (text_result ''Access denied: path is outside the files directory.'', [])"
proof -
  have d: "\<not> prefix ''/app/files'' (path_resolve ''/'' [''/app/files'', ''../outside.txt''])"
    by code_simp
  have r: "sample_disk (path_resolve ''/'' [''/app/files'', ''../outside.txt'']) = Inr ''outside''"
    by code_simp
  show ?thesis
    using d r read_file_denied_no_disk_access [OF d, of sample_disk] by simp
qed

text \<open>
  Claim C7: for a file inside the sandbox whose read succeeds, the result is one text block
  whose text is exactly what the read returned, unchanged.
\<close>

theorem read_file_success_contents:
  assumes "spec_inside_sandbox FILES_DIR (path_resolve cwd [FILES_DIR, filename])"
    and "fs (path_resolve cwd [FILES_DIR, filename]) = Inr contents"
  shows "fst (read_file fs cwd FILES_DIR filename) =
           \<lparr>content = [\<lparr>type = ''text'', text = contents\<rparr>]\<rparr>"
  using assms inside_imp_prefix [OF assms(1)] by (simp add: read_file_def text_result_def)

theorem read_file_success_contents_witness:
  "spec_inside_sandbox ''/app/files'' (path_resolve ''/'' [''/app/files'', ''hello.txt''])
   \<and> sample_disk (path_resolve ''/'' [''/app/files'', ''hello.txt'']) = Inr ''hi''
   \<and> fst (read_file sample_disk ''/'' ''/app/files'' ''hello.txt'') =
       \<lparr>content = [\<lparr>type = ''text'', text = ''hi''\<rparr>]\<rparr>"
proof -
  have i: "spec_inside_sandbox ''/app/files'' (path_resolve ''/'' [''/app/files'', ''hello.txt''])"
    by code_simp
  have r: "sample_disk (path_resolve ''/'' [''/app/files'', ''hello.txt'']) = Inr ''hi''"
    by code_simp
  show ?thesis
    using i r read_file_success_contents [where fs = sample_disk, OF i r] by simp
qed

text \<open>
  Claim C8: the path guard is a function of the sandbox root and the name only. For a name
  that resolves inside the sandbox the guard accepts, and the path it hands to the read is the
  same canonical path whatever the state of the disk and the working directory of the call.
\<close>

theorem path_guard_accepts_inside:
  assumes "FILES_DIR \<noteq> []" and "hd FILES_DIR = CHR ''/''"
    and "spec_inside_sandbox FILES_DIR (path_resolve cwd [FILES_DIR, filename])"
  shows "snd (read_file fs cwd FILES_DIR filename) =
           [ReadFile (path_resolve cwd [FILES_DIR, filename])]
         \<and> snd (read_file fs' cwd' FILES_DIR filename) = snd (read_file fs cwd FILES_DIR filename)"
proof -
  let ?p = "path_resolve cwd [FILES_DIR, filename]"
  have same: "path_resolve cwd' [FILES_DIR, filename] = ?p"
    using assms(1,2) by (rule path_resolve_absolute_root)
  have pre: "prefix FILES_DIR ?p"
    using assms(3) by (rule inside_imp_prefix)
  have ops: "snd (read_file g c FILES_DIR filename) = [ReadFile ?p]"
    if "path_resolve c [FILES_DIR, filename] = ?p" for g c
    using that pre by (simp add: read_file_def Let_def split: sum.splits)
  show ?thesis
    using ops [of cwd fs] ops [of cwd' fs', OF same] by simp
qed

theorem path_guard_accepts_inside_witness:
  "''/app/files'' \<noteq> [] \<and> hd ''/app/files'' = CHR ''/''
   \<and> spec_inside_sandbox ''/app/files'' (path_resolve ''/'' [''/app/files'', ''notes/../hello.txt''])
   \<and> snd (read_file sample_disk ''/'' ''/app/files'' ''notes/../hello.txt'') =
        [ReadFile ''/app/files/hello.txt'']
   \<and> snd (read_file (\<lambda>p. Inl EACCES) ''/tmp'' ''/app/files'' ''notes/../hello.txt'') =
        [ReadFile ''/app/files/hello.txt'']"
proof -
  have a: "''/app/files'' \<noteq> []" and b: "hd ''/app/files'' = CHR ''/''"
    by simp_all
  have i: "spec_inside_sandbox ''/app/files''
             (path_resolve ''/'' [''/app/files'', ''notes/../hello.txt''])"
    by code_simp
  have p: "path_resolve ''/'' [''/app/files'', ''notes/../hello.txt''] = ''/app/files/hello.txt''"
    by code_simp
  show ?thesis
    using a b i p
      path_guard_accepts_inside [OF a b i, of sample_disk "\<lambda>p. Inl EACCES" "''/tmp''"]
    by simp
qed

section \<open>Properties of \<^verbatim>\<open>get_weather\<close>\<close>

lemma bind_err_simps [simp]:
  "bind_err (Inl e) f = Inl e"
  "bind_err (Inr x) f = f x"
  by (simp_all add: bind_err_def)

lemma bind_err_Inr:
  "bind_err m f = Inr y \<longleftrightarrow> (\<exists>x. m = Inr x \<and> f x = Inr y)"
  by (cases m) simp_all

subsection \<open>Rounding to a double\<close>

lemma bitlen_bounds:
  "0 < n \<Longrightarrow> 2 ^ (bitlen n - 1) \<le> n \<and> n < 2 ^ bitlen n"
proof (induction n rule: bitlen.induct)
  case (1 n)
  show ?case
  proof (cases "n div 2 = 0")
    case True
    with 1(2) have "n = 1" by auto
    then show ?thesis by (simp add: bitlen.simps)
  next
    case False
    then have pos: "0 < n div 2" by simp
    from 1(2) have b: "bitlen n = Suc (bitlen (n div 2))"
      by (subst bitlen.simps) simp
    from pos have "bitlen (n div 2) \<noteq> 0"
      by (subst bitlen.simps) simp
    then obtain k where k: "bitlen (n div 2) = Suc k"
      by (cases "bitlen (n div 2)") auto
    from 1(1) [OF _ pos] 1(2) have ih: "2 ^ k \<le> n div 2" "n div 2 < 2 ^ Suc k"
      by (simp_all add: k)
    from ih(1) have "2 * 2 ^ k \<le> n" by linarith
    moreover from ih(2) have "n < 2 * 2 ^ Suc k" by linarith
    ultimately show ?thesis by (simp add: b k)
  qed
qed

lemma round_half_even_of_int [simp]: "round_half_even (of_int m) = m"
  by (simp add: round_half_even_def)

text \<open>Rounding is exact on the integers below \<open>2^53\<close>.\<close>

lemma fl_of_nat:
  assumes "n < 2 ^ 53"
  shows "fl (of_nat n) = Fin (of_nat n)"
proof (cases "n = 0")
  case True
  then show ?thesis by (simp add: fl_def)
next
  case False
  then have pos: "0 < n" by simp
  define e where "e = bitlen n - 1"
  from bitlen_bounds [OF pos] have lo: "2 ^ e \<le> n" and hi: "n < 2 ^ bitlen n"
    by (simp_all add: e_def)
  from pos have "bitlen n = Suc (bitlen (n div 2))"
    by (subst bitlen.simps) simp
  then have bl: "bitlen n = Suc e"
    by (simp add: e_def)
  have b1: "bitlen (Suc 0) = 1"
    by (simp add: bitlen.simps)
  have "(2::nat) ^ e < 2 ^ 53" using lo assms by linarith
  with power_less_imp_less_exp [of "2::nat" e 53] have e53: "e < 53" by fastforce
  have lo': "(2::rat) ^ e \<le> of_nat n"
    using lo by (metis of_nat_le_iff of_nat_numeral of_nat_power)
  have il: "ilog2 (of_nat n) = int e"
    using lo' by (simp add: ilog2_def b1 bl pow2_def Let_def)
  define m :: int where "m = int n * 2 ^ (52 - e)"
  have ulp: "pow2 (int e - 52) = 1 / 2 ^ (52 - e)"
  proof (cases "e = 52")
    case True
    then show ?thesis by (simp add: pow2_def)
  next
    case False
    with e53 have "int e - 52 < 0" by simp
    moreover have "nat (52 - int e) = 52 - e" by simp
    ultimately show ?thesis by (simp add: pow2_def)
  qed
  have q: "rat_of_nat n / pow2 (int e - 52) = of_int m"
    by (simp add: ulp m_def)
  have r: "of_int m * pow2 (int e - 52) = rat_of_nat n"
    by (simp add: ulp m_def)
  have small: "\<not> pow2 1024 \<le> rat_of_nat n"
  proof -
    have "rat_of_nat n < 2 ^ 53"
      using assms by (metis of_nat_less_iff of_nat_numeral of_nat_power)
    also have "(2::rat) ^ 53 \<le> 2 ^ 1024" by (rule power_increasing) simp_all
    finally show ?thesis by (simp add: pow2_def)
  qed
  from pos have nz: "rat_of_nat n \<noteq> 0" "0 < rat_of_nat n" by simp_all
  show ?thesis
    using nz small by (simp add: fl_def il Let_def q r)
qed

subsection \<open>The sample bodies, evaluated\<close>

lemma fl_small:
  "fl 36 = Fin 36" "fl 180 = Fin 180" "fl 20 = Fin 20" "fl 10 = Fin 10"
  using fl_of_nat [of 36] fl_of_nat [of 180] fl_of_nat [of 20] fl_of_nat [of 10]
  by simp_all

lemma celsius_68: "num_div (num_mul (num_sub (Fin 68) 32) 5) 9 = Fin 20"
  by (simp add: num_sub_def num_mul_def num_div_def fl_small)

lemma kilometres_10000: "num_div (Fin 10000) 1000 = Fin 10"
  by (simp add: num_div_def fl_small)

lemma toFixed1_small:
  "toFixed1 h (Fin 68) = ''68.0''" "toFixed1 h (Fin 20) = ''20.0''"
  "toFixed1 h (Fin 5) = ''5.0''" "toFixed1 h (Fin 10) = ''10.0''"
  by code_simp+

lemma Number_toString_50: "Number_toString h (Fin 50) = ''50''"
  by code_simp

lemmas sample_eval =
  extract_fields_def summary_def summary_lines_def weather_body_def answer_def
  celsius_68 kilometres_10000 toFixed1_small Number_toString_50

text \<open>
  The run of the specification's example: Fahrenheit 68.0 and no \<^verbatim>\<open>visibility\<close> give
  Celsius 20.0 and the marker \<^verbatim>\<open>N/A\<close>.
\<close>

lemma get_weather_sample:
  "get_weather h (answer True 200 (Inr (weather_body (JStr ''Tampa'') []))) ''Tampa'' =
     (Inr (text_result
        (''Weather for Tampa, US\<newline>Condition:   clear sky\<newline>Temperature: 20.0'' @ [CHR 0xB0] @ ''C / 68.0'' @ [CHR 0xB0] @ ''F (feels like 68.0'' @ [CHR 0xB0] @ ''F)\<newline>Humidity:    50%\<newline>Wind:        5.0 mph\<newline>Visibility:  N/A km'')),
      [Fetch (weather_url ''Tampa''), ReadJson])"
  by (simp add: get_weather_def sample_eval)

lemma get_weather_sample_visibility:
  "get_weather h
     (answer True 200 (Inr (weather_body (JStr ''Tampa'') [(''visibility'', JNum (Fin 10000))])))
     ''Tampa'' =
     (Inr (text_result
        (''Weather for Tampa, US\<newline>Condition:   clear sky\<newline>Temperature: 20.0'' @ [CHR 0xB0] @ ''C / 68.0'' @ [CHR 0xB0] @ ''F (feels like 68.0'' @ [CHR 0xB0] @ ''F)\<newline>Humidity:    50%\<newline>Wind:        5.0 mph\<newline>Visibility:  10.0 km'')),
      [Fetch (weather_url ''Tampa''), ReadJson])"
  by (simp add: get_weather_def sample_eval)

text \<open>What the handler does when \<^verbatim>\<open>fetch\<close> itself rejects: the exception leaves the handler.\<close>

lemma get_weather_fetch_rejects:
  "fetch (weather_url location) = Inl e \<Longrightarrow>
   get_weather h fetch location = (Inl e, [Fetch (weather_url location)])"
  by (simp add: get_weather_def)

subsection \<open>What lines 54 to 62 compute\<close>

lemma call_toFixed_Inr:
  "call_toFixed h v = Inr s \<longleftrightarrow> (\<exists>x. v = JNum x \<and> s = toFixed1 h x)"
  by (cases v) auto

text \<open>
  Whenever the constants are computed, \<^verbatim>\<open>main.temp\<close> is a Number, the Fahrenheit text is that
  Number with one decimal, and the Celsius text is the double that \<^verbatim>\<open>(temp - 32) * 5 / 9\<close>
  gives, each operation rounded, with one decimal. (Near a tie this can differ from rounding
  the exact quotient.)
\<close>

lemma extract_fields_temperature:
  assumes "extract_fields h data = Inr f"
  shows "\<exists>m x. get_prop data ''main'' = Inr m \<and> get_prop m ''temp'' = Inr (JNum x)
           \<and> tempF f = toFixed1 h x
           \<and> tempC f = toFixed1 h (num_div (num_mul (num_sub x 32) 5) 9)"
  using assms unfolding extract_fields_def bind_err_Inr call_toFixed_Inr
  by (elim exE conjE) auto

text \<open>
  The visibility text is the marker \<^verbatim>\<open>N/A\<close> exactly when \<^verbatim>\<open>data.visibility\<close> is falsy (absent,
  \<^verbatim>\<open>null\<close>, \<^verbatim>\<open>0\<close>, \<^verbatim>\<open>false\<close>, the empty string); otherwise it is the value divided by 1000
  with one decimal.
\<close>

lemma extract_fields_visibility:
  assumes "extract_fields h data = Inr f"
  shows "\<exists>v. get_prop data ''visibility'' = Inr v
           \<and> (if truthy v
               then \<exists>x. to_number h v = Inr x \<and> visibility f = toFixed1 h (num_div x 1000)
               else visibility f = ''N/A'')"
  using assms unfolding extract_fields_def bind_err_Inr
  by (elim exE conjE) (auto simp: bind_err_Inr split: if_splits)

lemma get_prop_other:
  assumes "get_prop data k = Inr v"
  shows "\<exists>u. get_prop data k' = Inr u"
  using assms by (cases data) auto

text \<open>A body without \<^verbatim>\<open>sys\<close>: reading \<^verbatim>\<open>data.sys.country\<close> throws.\<close>

lemma extract_fields_no_sys:
  assumes "get_prop data ''sys'' = Inr JUndefined"
  shows "extract_fields h data = Inl TypeError"
proof -
  from assms obtain c where "get_prop data ''name'' = Inr c"
    using get_prop_other by blast
  with assms show ?thesis
    by (simp add: extract_fields_def)
qed

subsection \<open>Where the credential can occur in a text\<close>

lemma sublist_skip:
  assumes "K \<noteq> []" and "c \<noteq> hd K"
  shows "sublist K (c # xs) = sublist K xs"
  using assms by (cases K) (auto simp: sublist_Cons_right)

text \<open>A character that is not in \<open>K\<close> cuts the text: \<open>K\<close> lies before it or after it.\<close>

lemma sublist_sep:
  assumes "c \<notin> set K"
  shows "sublist K (a @ c # b) = (sublist K a \<or> sublist K b)"
proof
  assume "sublist K (a @ c # b)"
  then obtain ps ss where eq: "a @ c # b = ps @ K @ ss"
    by (auto simp: sublist_def)
  then consider us where "a = ps @ us" "us @ c # b = K @ ss"
    | us where "a @ us = ps" "c # b = us @ K @ ss"
    by (auto simp: append_eq_append_conv2)
  then show "sublist K a \<or> sublist K b"
  proof cases
    case 1
    from 1(2) consider vs where "us = K @ vs" | vs where "us @ vs = K" "c # b = vs @ ss"
      by (auto simp: append_eq_append_conv2)
    then show ?thesis
    proof cases
      case 1
      with \<open>a = ps @ us\<close> show ?thesis by (auto simp: sublist_def)
    next
      case 2
      with assms have "vs = []" by (cases vs) auto
      with 2 \<open>a = ps @ us\<close> have "a = ps @ K" by simp
      then show ?thesis by simp
    qed
  next
    case 2
    show ?thesis
    proof (cases us)
      case Nil
      with 2 assms have "K = []" by (cases K) auto
      then show ?thesis by simp
    next
      case (Cons u us')
      with 2 have "b = us' @ K @ ss" by simp
      then show ?thesis by (auto simp: sublist_def)
    qed
  qed
next
  assume "sublist K a \<or> sublist K b"
  then show "sublist K (a @ c # b)"
  proof
    assume "sublist K a"
    then obtain ps ss where "a = ps @ K @ ss" by (auto simp: sublist_def)
    then have "a @ c # b = ps @ K @ (ss @ c # b)" by simp
    then show ?thesis unfolding sublist_def by blast
  next
    assume "sublist K b"
    then obtain ps ss where "b = ps @ K @ ss" by (auto simp: sublist_def)
    then have "a @ c # b = (a @ c # ps) @ K @ ss" by simp
    then show ?thesis unfolding sublist_def by blast
  qed
qed

lemma digit_mem: "k < 10 \<Longrightarrow> ''0123456789'' ! k \<in> set ''0123456789''"
  by (rule nth_mem) simp

lemma dec_digits: "set (dec n) \<subseteq> set ''0123456789''"
proof (induction n rule: dec.induct)
  case (1 n)
  show ?case
  proof (cases "n < 10")
    case True
    have "dec n = [''0123456789'' ! n]"
      using True by (subst dec.simps) simp
    with digit_mem [OF True] show ?thesis by simp
  next
    case False
    have m: "n mod 10 < 10" by simp
    have "dec n = dec (n div 10) @ [''0123456789'' ! (n mod 10)]"
      using False by (subst dec.simps) simp
    with 1 [OF False] digit_mem [OF m] show ?thesis by simp
  qed
qed

lemma key_facts:
  "WEATHER_API_KEY \<noteq> []" "hd WEATHER_API_KEY = CHR ''9''"
  by (simp_all add: WEATHER_API_KEY_def)

lemma key_chars: "set WEATHER_API_KEY \<subseteq> set ''0123456789abcdef''"
  by (simp add: WEATHER_API_KEY_def)

lemma key_not_in_dec: "\<not> sublist WEATHER_API_KEY (dec n)"
proof
  assume "sublist WEATHER_API_KEY (dec n)"
  then have "set WEATHER_API_KEY \<subseteq> set (dec n)" by (rule set_mono_sublist)
  with dec_digits [of n] have "set WEATHER_API_KEY \<subseteq> set ''0123456789''" by blast
  then show False by (simp add: WEATHER_API_KEY_def)
qed

lemma key_skip:
  "c \<noteq> CHR ''9'' \<Longrightarrow> sublist WEATHER_API_KEY (c # xs) = sublist WEATHER_API_KEY xs"
  using sublist_skip [of WEATHER_API_KEY c xs] by (simp add: key_facts)

lemma key_sep:
  "c \<notin> set ''0123456789abcdef'' \<Longrightarrow>
   sublist WEATHER_API_KEY (a @ c # b) = (sublist WEATHER_API_KEY a \<or> sublist WEATHER_API_KEY b)"
  using sublist_sep [of c WEATHER_API_KEY a b] key_chars by blast

lemma failure_text_key:
  assumes "sublist WEATHER_API_KEY
             (''Failed to fetch weather for \"'' @ location @ ''\": HTTP '' @ dec n)"
  shows "sublist WEATHER_API_KEY location"
proof -
  from assms have "sublist WEATHER_API_KEY (location @ CHR 0x22 # '': HTTP '' @ dec n)"
    by (simp add: key_skip)
  then have "sublist WEATHER_API_KEY location \<or> sublist WEATHER_API_KEY ('': HTTP '' @ dec n)"
    by (simp add: key_sep)
  then show ?thesis
    by (simp add: key_skip key_not_in_dec)
qed

lemma summary_text_key:
  assumes "sublist WEATHER_API_KEY (join_lines (summary_lines c co d tc tf fe hu wi vi))"
  shows "list_ex (sublist WEATHER_API_KEY) [c, co, d, tc, tf, fe, hu, wi, vi]"
  using assms
  apply (simp add: summary_lines_def)
  apply ((simp add: key_skip key_facts | simp add: key_sep)+)
  done

lemma summary_key:
  assumes "summary h f = Inr s" and "sublist WEATHER_API_KEY s"
  shows "list_ex (sublist WEATHER_API_KEY)
           [rendered h (city f), rendered h (country f), rendered h (description f),
            tempC f, tempF f, feelsLikeF f, rendered h (humidity f), windMph f, visibility f]"
proof -
  from assms(1) obtain c co d hu where
    c: "to_string h (city f) = Inr c" and co: "to_string h (country f) = Inr co" and
    d: "to_string h (description f) = Inr d" and hu: "to_string h (humidity f) = Inr hu" and
    s: "s = join_lines (summary_lines c co d (tempC f) (tempF f) (feelsLikeF f) hu (windMph f)
                          (visibility f))"
    unfolding summary_def bind_err_Inr by auto
  from assms(2) have
    "list_ex (sublist WEATHER_API_KEY)
       [c, co, d, tempC f, tempF f, feelsLikeF f, hu, windMph f, visibility f]"
    unfolding s by (rule summary_text_key)
  then show ?thesis
    by (simp add: rendered_def c co d hu)
qed

subsection \<open>The claims\<close>

text \<open>
  Claim C2 says that a success response whose body lacks an expected field gives a failure
  result with a parse-error message, and that the handler always returns a result. The
  handler has no \<^verbatim>\<open>try\<close> around lines 52 to 75 (the handler of \<^verbatim>\<open>read_file\<close> has one around
  its read): with status 200 and the body \<^verbatim>\<open>{"name": "Tampa"}\<close>, reading
  \<^verbatim>\<open>data.sys.country\<close> throws a TypeError, which leaves the handler; no result is returned.
\<close>

theorem get_weather_missing_field_throws:
  "get_weather h (answer True 200 (Inr (JObj [(''name'', JStr ''Tampa'')]))) ''Tampa'' =
     (Inl TypeError, [Fetch (weather_url ''Tampa''), ReadJson])"
  by (simp add: get_weather_def answer_def extract_fields_def)

text \<open>
  Claim C3 says that the summary shows the visibility in kilometres when it is present and
  the marker \<^verbatim>\<open>N/A\<close> exactly when it is absent. Line 62 tests \<^verbatim>\<open>data.visibility\<close> for
  truthiness: a body with all the fields and \<^verbatim>\<open>"visibility": 0\<close> has the field present, and
  the summary shows \<^verbatim>\<open>N/A km\<close> where the claim gives \<^verbatim>\<open>0.0 km\<close>. (The temperatures of the
  same run are as the claim says: Fahrenheit 68.0, Celsius 20.0.)
\<close>

theorem get_weather_zero_visibility_shown_absent:
  "get_weather h
     (answer True 200 (Inr (weather_body (JStr ''Tampa'') [(''visibility'', JNum (Fin 0))])))
     ''Tampa'' =
     (Inr (text_result
        (''Weather for Tampa, US\<newline>Condition:   clear sky\<newline>Temperature: 20.0'' @ [CHR 0xB0] @ ''C / 68.0'' @ [CHR 0xB0] @ ''F (feels like 68.0'' @ [CHR 0xB0] @ ''F)\<newline>Humidity:    50%\<newline>Wind:        5.0 mph\<newline>Visibility:  N/A km'')),
      [Fetch (weather_url ''Tampa''), ReadJson])"
  by (simp add: get_weather_def sample_eval)

text \<open>
  Claim C4: for a response whose status is not a success, the handler returns the message
  \<^verbatim>\<open>Failed to fetch weather for "<location>": HTTP <status>\<close>, which contains the location
  and the status code; the only network operation of the call is the request, the body is not
  read.
\<close>

theorem get_weather_http_failure:
  assumes "fetch (weather_url location) = Inr response" and "\<not> ok response"
  shows "\<exists>t. get_weather h fetch location =
               (Inr \<lparr>content = [\<lparr>type = ''text'', text = t\<rparr>]\<rparr>, [Fetch (weather_url location)])
             \<and> t = ''Failed to fetch weather for \"'' @ location @ ''\": HTTP '' @
                    dec (status response)
             \<and> sublist location t \<and> sublist (dec (status response)) t"
proof -
  let ?t = "''Failed to fetch weather for \"'' @ location @ ''\": HTTP '' @ dec (status response)"
  have "get_weather h fetch location =
          (Inr \<lparr>content = [\<lparr>type = ''text'', text = ?t\<rparr>]\<rparr>, [Fetch (weather_url location)])"
    using assms by (simp add: get_weather_def text_result_def)
  moreover have "sublist location ?t"
    by (rule sublist_appendI)
  moreover have "sublist (dec (status response)) ?t"
    using sublist_append_leftI
      [of "dec (status response)" "''Failed to fetch weather for \"'' @ location @ ''\": HTTP ''"]
    by simp
  ultimately show ?thesis by blast
qed

theorem get_weather_http_failure_witness:
  "\<forall>h. answer False 404 (Inl SyntaxError) (weather_url ''Nowhereville'') =
          Inr \<lparr>ok = False, status = 404, json = Inl SyntaxError\<rparr>
       \<and> \<not> ok \<lparr>ok = False, status = 404, json = Inl SyntaxError\<rparr>
       \<and> get_weather h (answer False 404 (Inl SyntaxError)) ''Nowhereville'' =
           (Inr \<lparr>content = [\<lparr>type = ''text'',
                              text = ''Failed to fetch weather for \"Nowhereville\": HTTP 404''\<rparr>]\<rparr>,
            [Fetch (weather_url ''Nowhereville'')])
       \<and> sublist ''Nowhereville'' ''Failed to fetch weather for \"Nowhereville\": HTTP 404''
       \<and> sublist ''404'' ''Failed to fetch weather for \"Nowhereville\": HTTP 404''"
proof
  fix h
  let ?r = "\<lparr>ok = False, status = 404, json = Inl SyntaxError\<rparr>"
  have a: "answer False 404 (Inl SyntaxError) (weather_url ''Nowhereville'') = Inr ?r"
    by (simp add: answer_def)
  have b: "\<not> ok ?r"
    by simp
  have d: "dec 404 = ''404''"
    by code_simp
  show "answer False 404 (Inl SyntaxError) (weather_url ''Nowhereville'') = Inr ?r
       \<and> \<not> ok ?r
       \<and> get_weather h (answer False 404 (Inl SyntaxError)) ''Nowhereville'' =
           (Inr \<lparr>content = [\<lparr>type = ''text'',
                              text = ''Failed to fetch weather for \"Nowhereville\": HTTP 404''\<rparr>]\<rparr>,
            [Fetch (weather_url ''Nowhereville'')])
       \<and> sublist ''Nowhereville'' ''Failed to fetch weather for \"Nowhereville\": HTTP 404''
       \<and> sublist ''404'' ''Failed to fetch weather for \"Nowhereville\": HTTP 404''"
    using a b get_weather_http_failure [where h = h and fetch = "answer False 404 (Inl SyntaxError)", OF a b] by (simp add: d)
qed

text \<open>
  Claim C9 says that the credential never occurs in the text of a result, for every location
  and every response. The handler puts the caller's location into the failure message as it
  is: when the location is the credential's own string and the provider answers 404, the
  message contains the credential.
\<close>

theorem get_weather_credential_echoed:
  "\<forall>h. fst (get_weather h (answer False 404 (Inl SyntaxError)) WEATHER_API_KEY) =
          Inr (text_result
                 ''Failed to fetch weather for \"9e16d62c8463bb8555971f49447c76e1\": HTTP 404'')
       \<and> sublist WEATHER_API_KEY
           ''Failed to fetch weather for \"9e16d62c8463bb8555971f49447c76e1\": HTTP 404''"
proof
  fix h
  have d: "dec 404 = ''404''"
    by code_simp
  have "sublist WEATHER_API_KEY (''Failed to fetch weather for \"'' @ WEATHER_API_KEY @ ''\": HTTP 404'')"
    by (rule sublist_appendI)
  then have s: "sublist WEATHER_API_KEY
                  ''Failed to fetch weather for \"9e16d62c8463bb8555971f49447c76e1\": HTTP 404''"
    by (simp add: WEATHER_API_KEY_def)
  have "fst (get_weather h (answer False 404 (Inl SyntaxError)) WEATHER_API_KEY) =
          Inr (text_result
                 ''Failed to fetch weather for \"9e16d62c8463bb8555971f49447c76e1\": HTTP 404'')"
    by (simp add: get_weather_def answer_def d) (simp add: WEATHER_API_KEY_def)
  with s show "fst (get_weather h (answer False 404 (Inl SyntaxError)) WEATHER_API_KEY) =
          Inr (text_result
                 ''Failed to fetch weather for \"9e16d62c8463bb8555971f49447c76e1\": HTTP 404'')
       \<and> sublist WEATHER_API_KEY
           ''Failed to fetch weather for \"9e16d62c8463bb8555971f49447c76e1\": HTTP 404''"
    by simp
qed

text \<open>
  Claim C9, amended: the handler never puts the credential into a result itself. The text of
  a returned result contains the credential only if the credential already occurs in what the
  handler copies from its inputs: the caller's location on the failure path, or one of the
  nine strings of the upstream body that the summary prints on the success path.
\<close>

theorem get_weather_credential_only_echoed:
  assumes "fetch (weather_url location) = Inr response"
    and "fst (get_weather h fetch location) = Inr r"
    and "sublist WEATHER_API_KEY (text (hd (content r)))"
  shows "list_ex (sublist WEATHER_API_KEY) (interpolated h location response)"
proof (cases "ok response")
  case False
  with assms(1) have
    "fst (get_weather h fetch location) =
       Inr (text_result (''Failed to fetch weather for \"'' @ location @ ''\": HTTP '' @
                         dec (status response)))"
    by (simp add: get_weather_def)
  with assms(2) have
    "r = text_result (''Failed to fetch weather for \"'' @ location @ ''\": HTTP '' @
                      dec (status response))"
    by simp
  then have
    "text (hd (content r)) =
       ''Failed to fetch weather for \"'' @ location @ ''\": HTTP '' @ dec (status response)"
    by (simp only: text_result_def call_result.simps content_block.simps list.sel)
  with assms(3) have
    "sublist WEATHER_API_KEY
       (''Failed to fetch weather for \"'' @ location @ ''\": HTTP '' @ dec (status response))"
    by (simp only:)
  then have "sublist WEATHER_API_KEY location"
    by (rule failure_text_key)
  with False show ?thesis
    by (simp add: interpolated_def)
next
  case True
  show ?thesis
  proof (cases "json response")
    case (Inl e)
    with assms(1) True have "fst (get_weather h fetch location) = Inl e"
      by (simp add: get_weather_def)
    with assms(2) show ?thesis by simp
  next
    case (Inr data)
    with assms(1) True have
      "fst (get_weather h fetch location) =
         bind_err (bind_err (extract_fields h data) (summary h)) (\<lambda>s. Inr (text_result s))"
      by (simp add: get_weather_def)
    with assms(2) obtain s where
      b: "bind_err (extract_fields h data) (summary h) = Inr s" and r: "r = text_result s"
      by (auto simp: bind_err_Inr)
    from b obtain f where f: "extract_fields h data = Inr f" and s: "summary h f = Inr s"
      unfolding bind_err_Inr by blast
    from assms(3) r have "sublist WEATHER_API_KEY s"
      by (simp add: text_result_def)
    with s have
      "list_ex (sublist WEATHER_API_KEY)
         [rendered h (city f), rendered h (country f), rendered h (description f),
          tempC f, tempF f, feelsLikeF f, rendered h (humidity f), windMph f, visibility f]"
      by (rule summary_key)
    with True Inr f show ?thesis
      by (simp add: interpolated_def)
  qed
qed

theorem get_weather_credential_only_echoed_witness:
  "\<forall>h. answer True 200 (Inr (weather_body (JStr WEATHER_API_KEY) []))
          (weather_url ''Tampa'') =
          Inr \<lparr>ok = True, status = 200, json = Inr (weather_body (JStr WEATHER_API_KEY) [])\<rparr>
       \<and> fst (get_weather h (answer True 200 (Inr (weather_body (JStr WEATHER_API_KEY) [])))
                ''Tampa'') =
           Inr (text_result
             (''Weather for 9e16d62c8463bb8555971f49447c76e1, US\<newline>Condition:   clear sky\<newline>Temperature: 20.0'' @ [CHR 0xB0] @ ''C / 68.0'' @ [CHR 0xB0] @ ''F (feels like 68.0'' @ [CHR 0xB0] @ ''F)\<newline>Humidity:    50%\<newline>Wind:        5.0 mph\<newline>Visibility:  N/A km''))
       \<and> sublist WEATHER_API_KEY
            (''Weather for '' @ WEATHER_API_KEY @
             ('', US\<newline>Condition:   clear sky\<newline>Temperature: 20.0'' @ [CHR 0xB0] @ ''C / 68.0'' @ [CHR 0xB0] @ ''F (feels like 68.0'' @ [CHR 0xB0] @ ''F)\<newline>Humidity:    50%\<newline>Wind:        5.0 mph\<newline>Visibility:  N/A km''))
       \<and> list_ex (sublist WEATHER_API_KEY)
            (interpolated h ''Tampa''
               \<lparr>ok = True, status = 200, json = Inr (weather_body (JStr WEATHER_API_KEY) [])\<rparr>)"
proof
  fix h
  let ?b = "weather_body (JStr WEATHER_API_KEY) []"
  let ?r = "\<lparr>ok = True, status = 200, json = Inr ?b\<rparr>"
  let ?rest = "('', US\<newline>Condition:   clear sky\<newline>Temperature: 20.0'' @ [CHR 0xB0] @ ''C / 68.0'' @ [CHR 0xB0] @ ''F (feels like 68.0'' @ [CHR 0xB0] @ ''F)\<newline>Humidity:    50%\<newline>Wind:        5.0 mph\<newline>Visibility:  N/A km'')"
  have a: "answer True 200 (Inr ?b) (weather_url ''Tampa'') = Inr ?r"
    by (simp add: answer_def)
  have g: "fst (get_weather h (answer True 200 (Inr ?b)) ''Tampa'') =
             Inr (text_result (''Weather for '' @ WEATHER_API_KEY @ ?rest))"
    by (simp add: get_weather_def sample_eval)
  have k: "sublist WEATHER_API_KEY (''Weather for '' @ WEATHER_API_KEY @ ?rest)"
    by (rule sublist_appendI)
  have t: "sublist WEATHER_API_KEY
             (text (hd (content (text_result (''Weather for '' @ WEATHER_API_KEY @ ?rest)))))"
    using k by (simp add: text_result_def)
  show "answer True 200 (Inr ?b) (weather_url ''Tampa'') = Inr ?r
       \<and> fst (get_weather h (answer True 200 (Inr ?b)) ''Tampa'') =
           Inr (text_result
             (''Weather for 9e16d62c8463bb8555971f49447c76e1, US\<newline>Condition:   clear sky\<newline>Temperature: 20.0'' @ [CHR 0xB0] @ ''C / 68.0'' @ [CHR 0xB0] @ ''F (feels like 68.0'' @ [CHR 0xB0] @ ''F)\<newline>Humidity:    50%\<newline>Wind:        5.0 mph\<newline>Visibility:  N/A km''))
       \<and> sublist WEATHER_API_KEY (''Weather for '' @ WEATHER_API_KEY @ ?rest)
       \<and> list_ex (sublist WEATHER_API_KEY) (interpolated h ''Tampa'' ?r)"
    using a k get_weather_credential_only_echoed
        [where h = h and fetch = "answer True 200 (Inr ?b)", OF a g t]
    by (simp add: g) (simp add: WEATHER_API_KEY_def)
qed

section \<open>Both tools\<close>

lemma read_file_text_result: "\<exists>t. fst (read_file fs cwd FILES_DIR filename) = text_result t"
  by (cases "fs (path_resolve cwd [FILES_DIR, filename])") (auto simp: read_file_def Let_def)

lemma get_weather_text_result:
  assumes "fst (get_weather h fetch location) = Inr r"
  shows "\<exists>t. r = text_result t"
  using assms
  by (auto simp: get_weather_def Let_def bind_err_Inr split: sum.splits if_splits)

text \<open>
  Claim C10: every result that either handler returns, on every path, has a content of
  exactly one block, and the block's type is \<^verbatim>\<open>text\<close>.
\<close>

theorem handlers_return_one_text_block:
  "length (content (fst (read_file fs cwd FILES_DIR filename))) = 1
   \<and> list_all (\<lambda>b. type b = ''text'') (content (fst (read_file fs cwd FILES_DIR filename)))
   \<and> (case fst (get_weather h fetch location) of
         Inl e \<Rightarrow> True
       | Inr r \<Rightarrow> length (content r) = 1 \<and> list_all (\<lambda>b. type b = ''text'') (content r))"
proof -
  obtain t where "fst (read_file fs cwd FILES_DIR filename) = text_result t"
    using read_file_text_result by blast
  then have rf: "length (content (fst (read_file fs cwd FILES_DIR filename))) = 1
      \<and> list_all (\<lambda>b. type b = ''text'') (content (fst (read_file fs cwd FILES_DIR filename)))"
    by (simp add: text_result_def)
  have gw: "length (content r) = 1 \<and> list_all (\<lambda>b. type b = ''text'') (content r)"
    if "fst (get_weather h fetch location) = Inr r" for r
    using get_weather_text_result [OF that] by (auto simp: text_result_def)
  from rf gw show ?thesis
    by (simp split: sum.splits)
qed

theorem handlers_return_one_text_block_witness:
  "\<forall>h. content (fst (read_file sample_disk ''/'' ''/app/files'' ''hello.txt'')) =
          [\<lparr>type = ''text'', text = ''hi''\<rparr>]
       \<and> content (fst (read_file sample_disk ''/'' ''/app/files'' ''../outside.txt'')) =
          [\<lparr>type = ''text'', text = ''Access denied: path is outside the files directory.''\<rparr>]
       \<and> length (content (fst (read_file sample_disk ''/'' ''/app/files'' ''hello.txt''))) = 1
       \<and> (\<exists>r. fst (get_weather h (answer False 404 (Inl SyntaxError)) ''Nowhereville'') = Inr r
              \<and> length (content r) = 1 \<and> list_all (\<lambda>b. type b = ''text'') (content r))"
proof
  fix h
  let ?g = "fst (get_weather h (answer False 404 (Inl SyntaxError)) ''Nowhereville'')"
  have a: "content (fst (read_file sample_disk ''/'' ''/app/files'' ''hello.txt'')) =
             [\<lparr>type = ''text'', text = ''hi''\<rparr>]"
    by code_simp
  have b: "content (fst (read_file sample_disk ''/'' ''/app/files'' ''../outside.txt'')) =
             [\<lparr>type = ''text'', text = ''Access denied: path is outside the files directory.''\<rparr>]"
    by code_simp
  have g: "?g = Inr (text_result (''Failed to fetch weather for \"Nowhereville\": HTTP '' @ dec 404))"
    by (simp add: get_weather_def answer_def)
  show "content (fst (read_file sample_disk ''/'' ''/app/files'' ''hello.txt'')) =
          [\<lparr>type = ''text'', text = ''hi''\<rparr>]
       \<and> content (fst (read_file sample_disk ''/'' ''/app/files'' ''../outside.txt'')) =
          [\<lparr>type = ''text'', text = ''Access denied: path is outside the files directory.''\<rparr>]
       \<and> length (content (fst (read_file sample_disk ''/'' ''/app/files'' ''hello.txt''))) = 1
       \<and> (\<exists>r. ?g = Inr r
              \<and> length (content r) = 1 \<and> list_all (\<lambda>b. type b = ''text'') (content r))"
    using a b
      handlers_return_one_text_block
        [of sample_disk "''/''" "''/app/files''" "''hello.txt''" h
            "answer False 404 (Inl SyntaxError)" "''Nowhereville''"]
    by (simp add: g)
qed

end
